theory Spec2Isabelle
  imports Main "HOL-Library.Log_Nat"
begin

section \<open>Python floats\<close>

text \<open>
  The time accumulators of the test and the time step of the configuration are Python
  floats, that is IEEE binary64 numbers. A float is kept as a signed integer mantissa and
  a binary exponent, with value \<open>mantissa * 2 ^ exponent\<close>; zero is \<open>PyFloat 0 0\<close> and every
  other float carries a mantissa of exactly 53 bits, so that two floats are equal exactly
  when their representations are. Every operation rounds the exact result to the nearest
  such number, ties to the even mantissa. The exponent is unbounded: overflow and
  subnormal numbers, which the magnitudes of this test (between \<open>10^-17\<close> and \<open>10\<close>) never
  reach, are not represented.
\<close>

datatype pyfloat = PyFloat (mantissa: int) (exponent: int)

definition round_mantissa :: "int \<Rightarrow> int \<Rightarrow> pyfloat" where
  "round_mantissa M E =
     (if M = 0 then PyFloat 0 0
      else let bl = bitlen \<bar>M\<bar> in
        if bl \<le> 53 then PyFloat (M * 2 ^ nat (53 - bl)) (E - (53 - bl))
        else let sh = nat (bl - 53);
                 q = \<bar>M\<bar> div 2 ^ sh;
                 r = \<bar>M\<bar> mod 2 ^ sh;
                 half = 2 ^ (sh - 1);
                 q' = (if r < half then q else if half < r then q + 1
                       else if even q then q else q + 1)
             in if q' = 2 ^ 53 then PyFloat (sgn M * 2 ^ 52) (E + int sh + 1)
                else PyFloat (sgn M * q') (E + int sh))"

text \<open>\<open>float(n)\<close> for a Python int, as in \<open>n * dt\<close>.\<close>

definition float_of_int :: "int \<Rightarrow> pyfloat" where
  "float_of_int n = round_mantissa n 0"

text \<open>
  A decimal literal \<open>p / q\<close> with \<open>0 < q\<close> (\<open>0.005\<close> is \<open>5 / 1000\<close>): the quotient is
  taken to at least 55 bits with a sticky bit for the remainder, then rounded once.
\<close>

definition float_of_ratio :: "int \<Rightarrow> int \<Rightarrow> pyfloat" where
  "float_of_ratio p q =
     (let k = 55 + bitlen q - bitlen \<bar>p\<bar>;
          num = (if 0 \<le> k then \<bar>p\<bar> * 2 ^ nat k else \<bar>p\<bar>);
          den = (if 0 \<le> k then q else q * 2 ^ nat (- k));
          sticky = (if num mod den = 0 then 0 else 1)
      in round_mantissa (sgn p * (2 * (num div den) + sticky)) (- k - 1))"

definition fadd :: "pyfloat \<Rightarrow> pyfloat \<Rightarrow> pyfloat" where
  "fadd a b =
     (let e = min (exponent a) (exponent b)
      in round_mantissa
           (mantissa a * 2 ^ nat (exponent a - e) + mantissa b * 2 ^ nat (exponent b - e)) e)"

definition fneg :: "pyfloat \<Rightarrow> pyfloat" where
  "fneg a = PyFloat (- mantissa a) (exponent a)"

definition fsub :: "pyfloat \<Rightarrow> pyfloat \<Rightarrow> pyfloat" where
  "fsub a b = fadd a (fneg b)"

definition fmul :: "pyfloat \<Rightarrow> pyfloat \<Rightarrow> pyfloat" where
  "fmul a b = round_mantissa (mantissa a * mantissa b) (exponent a + exponent b)"

definition fabs :: "pyfloat \<Rightarrow> pyfloat" where
  "fabs a = PyFloat \<bar>mantissa a\<bar> (exponent a)"

text \<open>
  \<open>round(x, ndigits) == 0\<close>: Python rounds the exact value of \<open>x\<close> to the nearest multiple
  of \<open>10 ^ -ndigits\<close>, ties to even, so the result is zero exactly when
  \<open>2 * \<bar>x\<bar> * 10 ^ ndigits \<le> 1\<close>.
\<close>

definition round_is_zero :: "pyfloat \<Rightarrow> nat \<Rightarrow> bool" where
  "round_is_zero x ndigits =
     (if 0 \<le> exponent x then 2 * \<bar>mantissa x\<bar> * 10 ^ ndigits * 2 ^ nat (exponent x) \<le> 1
      else 2 * \<bar>mantissa x\<bar> * 10 ^ ndigits \<le> 2 ^ nat (- exponent x))"

text \<open>\<open>n\<close> successive \<open>acc += d\<close>.\<close>

fun faccum :: "nat \<Rightarrow> pyfloat \<Rightarrow> pyfloat \<Rightarrow> pyfloat" where
  "faccum 0 d acc = acc"
| "faccum (Suc n) d acc = faccum n d (fadd acc d)"

section \<open>The configurations of the rendering-logic test\<close>

datatype error = AssertionError string | KeyError string | ZeroDivisionError

datatype env_type = manager_based_env | manager_based_rl_env | direct_rl_env

datatype EmptyManagerCfg = EmptyManagerCfg

record SimulationCfg =
  dt :: pyfloat
  render_interval :: int

record InteractiveSceneCfg =
  num_envs :: int
  env_spacing :: pyfloat

text \<open>
  The fields an \<open>EnvCfg\<close> class of the test declares beside \<open>decimation\<close>, \<open>sim\<close> and
  \<open>scene\<close>: the manager-based workflows give the two manager configurations, the direct
  workflow the two space sizes.
\<close>

datatype workflow_cfg =
  ManagerCfg (actions: EmptyManagerCfg) (observations: EmptyManagerCfg)
| DirectCfg (num_actions: int) (num_observations: int)

record EnvCfg =
  decimation :: int
  sim :: SimulationCfg
  scene :: InteractiveSceneCfg
  workflow :: workflow_cfg

text \<open>The class \<open>EnvCfg\<close> local to \<open>create_manager_based_env\<close>, instantiated.\<close>

definition manager_based_EnvCfg :: "int \<Rightarrow> EnvCfg" where
  "manager_based_EnvCfg render_interval' =
     \<lparr>decimation = 4,
      sim = \<lparr>dt = float_of_ratio 5 1000, render_interval = render_interval'\<rparr>,
      scene = \<lparr>num_envs = 1, env_spacing = float_of_ratio 10 10\<rparr>,
      workflow = ManagerCfg EmptyManagerCfg EmptyManagerCfg\<rparr>"

text \<open>The class \<open>EnvCfg\<close> local to \<open>create_manager_based_rl_env\<close>, instantiated.\<close>

definition manager_based_rl_EnvCfg :: "int \<Rightarrow> EnvCfg" where
  "manager_based_rl_EnvCfg render_interval' =
     \<lparr>decimation = 4,
      sim = \<lparr>dt = float_of_ratio 5 1000, render_interval = render_interval'\<rparr>,
      scene = \<lparr>num_envs = 1, env_spacing = float_of_ratio 10 10\<rparr>,
      workflow = ManagerCfg EmptyManagerCfg EmptyManagerCfg\<rparr>"

text \<open>The class \<open>EnvCfg\<close> local to \<open>create_direct_rl_env\<close>, instantiated.\<close>

definition direct_rl_EnvCfg :: "int \<Rightarrow> EnvCfg" where
  "direct_rl_EnvCfg render_interval' =
     \<lparr>decimation = 4,
      sim = \<lparr>dt = float_of_ratio 5 1000, render_interval = render_interval'\<rparr>,
      scene = \<lparr>num_envs = 1, env_spacing = float_of_ratio 10 10\<rparr>,
      workflow = DirectCfg 0 0\<rparr>"

section \<open>The test instance and its callbacks\<close>

record TestEnvRenderingLogic =
  physics_time :: pyfloat
  render_time :: pyfloat
  num_physics_steps :: int
  num_render_steps :: int

text \<open>A render event: its payload is a dictionary.\<close>

record IEvent =
  payload :: "(string \<times> pyfloat) list"

text \<open>\<open>_physics_callback\<close>: called at every physics step.\<close>

definition physics_callback :: "TestEnvRenderingLogic \<Rightarrow> pyfloat \<Rightarrow> TestEnvRenderingLogic" where
  "physics_callback self step_dt =
     self\<lparr>physics_time := fadd (physics_time self) step_dt,
          num_physics_steps := num_physics_steps self + 1\<rparr>"

text \<open>\<open>_render_callback\<close>: called at every render step; a payload without \<open>dt\<close> raises.\<close>

definition render_callback :: "TestEnvRenderingLogic \<Rightarrow> IEvent \<Rightarrow> error + TestEnvRenderingLogic" where
  "render_callback self event =
     (case map_of (payload event) ''dt'' of
        None \<Rightarrow> Inl (KeyError ''dt'')
      | Some d \<Rightarrow> Inr (self\<lparr>render_time := fadd (render_time self) d,
                           num_render_steps := num_render_steps self + 1\<rparr>))"

section \<open>The simulation context and the environments\<close>

text \<open>
  Modelled from the spec: the classes \<open>SimulationContext\<close>, \<open>ManagerBasedEnv\<close>,
  \<open>ManagerBasedRLEnv\<close> and \<open>DirectRLEnv\<close> are missing; the test uses them and they are
  defined elsewhere. What follows keeps of them what the test touches: the settings, the
  render mode, the registered callbacks, the configuration and a counter of physics
  steps. The type \<open>'s\<close> is the state the callbacks act on.
\<close>

datatype RenderMode = NO_GUI_OR_RENDERING | NO_RENDERING | PARTIAL_RENDERING | FULL_RENDERING

record 's SimulationContext =
  settings :: "(string \<times> bool) list"
  render_mode :: RenderMode
  physics_callbacks :: "(string \<times> ('s \<Rightarrow> pyfloat \<Rightarrow> 's)) list"
  render_callbacks :: "(string \<times> ('s \<Rightarrow> IEvent \<Rightarrow> error + 's)) list"

record 's Env =
  env_class :: env_type
  cfg :: EnvCfg
  sim_context :: "'s SimulationContext"
  sim_step_counter :: int

text \<open>
  Modelled from the spec: the environment constructors (\<open>ManagerBasedEnv(cfg)\<close>,
  \<open>ManagerBasedRLEnv(cfg)\<close>, \<open>DirectRLEnv(cfg)\<close>) are missing. A new environment has no
  callback, no setting and has taken no physics step; the application was launched with
  \<open>enable_cameras=True\<close>, which gives partial rendering.
\<close>

definition new_env :: "env_type \<Rightarrow> EnvCfg \<Rightarrow> 's Env" where
  "new_env t c =
     \<lparr>env_class = t, cfg = c,
      sim_context = \<lparr>settings = [], render_mode = PARTIAL_RENDERING,
                     physics_callbacks = [], render_callbacks = []\<rparr>,
      sim_step_counter = 0\<rparr>"

definition create_manager_based_env :: "int \<Rightarrow> 's Env" where
  "create_manager_based_env render_interval' =
     new_env manager_based_env (manager_based_EnvCfg render_interval')"

definition create_manager_based_rl_env :: "int \<Rightarrow> 's Env" where
  "create_manager_based_rl_env render_interval' =
     new_env manager_based_rl_env (manager_based_rl_EnvCfg render_interval')"

definition create_direct_rl_env :: "int \<Rightarrow> 's Env" where
  "create_direct_rl_env render_interval' =
     new_env direct_rl_env (direct_rl_EnvCfg render_interval')"

text \<open>Modelled from the spec: \<open>SimulationContext.set_setting\<close> is missing.\<close>

definition set_setting :: "string \<Rightarrow> bool \<Rightarrow> 's SimulationContext \<Rightarrow> 's SimulationContext" where
  "set_setting name v ctx = ctx\<lparr>settings := (name, v) # settings ctx\<rparr>"

text \<open>Modelled from the spec: \<open>SimulationContext.add_physics_callback\<close> is missing.\<close>

definition add_physics_callback ::
  "string \<Rightarrow> ('s \<Rightarrow> pyfloat \<Rightarrow> 's) \<Rightarrow> 's SimulationContext \<Rightarrow> 's SimulationContext" where
  "add_physics_callback name f ctx = ctx\<lparr>physics_callbacks := physics_callbacks ctx @ [(name, f)]\<rparr>"

text \<open>Modelled from the spec: \<open>SimulationContext.add_render_callback\<close> is missing.\<close>

definition add_render_callback ::
  "string \<Rightarrow> ('s \<Rightarrow> IEvent \<Rightarrow> error + 's) \<Rightarrow> 's SimulationContext \<Rightarrow> 's SimulationContext" where
  "add_render_callback name f ctx = ctx\<lparr>render_callbacks := render_callbacks ctx @ [(name, f)]\<rparr>"

text \<open>
  Modelled from the spec: the physics step of the simulator is missing. It fires every
  registered physics callback with the configured time step.
\<close>

definition physics_step :: "'s Env \<Rightarrow> 's \<Rightarrow> 's" where
  "physics_step env s =
     fold (\<lambda>(name, f) s'. f s' (dt (sim (cfg env)))) (physics_callbacks (sim_context env)) s"

text \<open>
  Modelled from the spec: the dispatch of a render event is missing. The registered
  render callbacks are called in turn with the event; an exception in one ends the
  dispatch.
\<close>

fun fire_render :: "(string \<times> ('s \<Rightarrow> IEvent \<Rightarrow> error + 's)) list \<Rightarrow> IEvent \<Rightarrow> 's \<Rightarrow> error + 's" where
  "fire_render [] event s = Inr s"
| "fire_render ((name, f) # cbs) event s =
     (case f s event of Inl e \<Rightarrow> Inl e | Inr s' \<Rightarrow> fire_render cbs event s')"

text \<open>
  Modelled from the spec: the rendering update of the simulator is missing. It fires
  every registered render callback with one event, whose \<open>dt\<close> is the time of one
  rendering update: the time step times the render interval (render time = render steps
  \<open>\<times>\<close> \<open>dt\<close> \<open>\<times>\<close> \<open>R\<close>).
\<close>

definition render :: "'s Env \<Rightarrow> 's \<Rightarrow> error + 's" where
  "render env s =
     fire_render (render_callbacks (sim_context env))
       \<lparr>payload = [(''dt'', fmul (dt (sim (cfg env)))
                               (float_of_int (render_interval (sim (cfg env)))))]\<rparr> s"

text \<open>
  Modelled from the spec: the test of whether the simulation renders is missing. It is
  the flag the test sets "to render the environment".
\<close>

definition is_rendering :: "'s Env \<Rightarrow> bool" where
  "is_rendering env =
     (map_of (settings (sim_context env)) ''/isaaclab/render/rtx_sensors'' = Some True)"

text \<open>
  Modelled from the spec: the loop inside \<open>env.step\<close> is missing. Decimation is the
  number of physics steps per environment step, the render interval the number of physics
  steps per rendering update: each round counts one physics step, takes it, and renders
  when the count is a multiple of the render interval.
\<close>

fun decimation_loop :: "nat \<Rightarrow> 's Env \<Rightarrow> 's \<Rightarrow> error + ('s Env \<times> 's)" where
  "decimation_loop 0 env s = Inr (env, s)"
| "decimation_loop (Suc n) env s =
     (let env' = env\<lparr>sim_step_counter := sim_step_counter env + 1\<rparr>;
          s' = physics_step env' s
      in if render_interval (sim (cfg env')) = 0 then Inl ZeroDivisionError
         else if sim_step_counter env' mod render_interval (sim (cfg env')) = 0
                 \<and> is_rendering env'
         then (case render env' s' of
                 Inl e \<Rightarrow> Inl e
               | Inr s'' \<Rightarrow> decimation_loop n env' s'')
         else decimation_loop n env' s')"

text \<open>\<open>torch.zeros(n, dtype=torch.bool)\<close> and \<open>torch.zeros((n, m))\<close>.\<close>

definition zeros_bool :: "nat \<Rightarrow> bool list" where
  "zeros_bool n = replicate n False"

definition zeros :: "nat \<Rightarrow> nat \<Rightarrow> pyfloat list list" where
  "zeros n m = replicate n (replicate m (PyFloat 0 0))"

text \<open>
  The methods of the class \<open>Env\<close> local to \<open>create_direct_rl_env\<close>: \<open>_pre_physics_step\<close> and
  \<open>_apply_action\<close> do nothing, \<open>_get_observations\<close> and \<open>_get_rewards\<close> return an empty
  dictionary, and \<open>_get_dones\<close> returns the terminated and the timed-out flags.
\<close>

definition get_dones :: "'s Env \<Rightarrow> bool list \<times> bool list" where
  "get_dones self = (zeros_bool 1, zeros_bool 1)"

text \<open>
  Modelled from the spec: \<open>env.step\<close> is missing. It runs the decimation loop; the
  direct workflow then asks \<open>_get_dones\<close> and resets the environments that are done.
  The reset itself (\<open>reset_idx\<close>) is a parameter.
\<close>

definition step ::
  "(nat list \<Rightarrow> 's Env \<Rightarrow> 's \<Rightarrow> error + ('s Env \<times> 's)) \<Rightarrow>
   's Env \<Rightarrow> pyfloat list list \<Rightarrow> 's \<Rightarrow> error + ('s Env \<times> 's)" where
  "step reset_idx env action s =
     (case decimation_loop (nat (decimation (cfg env))) env s of
        Inl e \<Rightarrow> Inl e
      | Inr (env', s') \<Rightarrow>
          if env_class env' = direct_rl_env then
            (let (terminated, time_outs) = get_dones env';
                 reset_buf = map2 (\<or>) terminated time_outs;
                 reset_env_ids = filter (\<lambda>j. reset_buf ! j) [0..<length reset_buf]
             in if reset_env_ids \<noteq> [] then reset_idx reset_env_ids env' s'
                else Inr (env', s'))
          else Inr (env', s'))"

section \<open>The test\<close>

text \<open>The two nested loops of \<open>test_env_rendering_logic\<close> run one sub-test per pair.\<close>

definition subtests :: "(env_type \<times> int) list" where
  "subtests =
     List.product [manager_based_env, manager_based_rl_env, direct_rl_env] [1, 2, 4, 8, 10]"

definition reset_counters :: "TestEnvRenderingLogic \<Rightarrow> TestEnvRenderingLogic" where
  "reset_counters self =
     self\<lparr>physics_time := float_of_ratio 0 10, render_time := float_of_ratio 0 10,
          num_physics_steps := 0, num_render_steps := 0\<rparr>"

definition create_env :: "env_type \<Rightarrow> int \<Rightarrow> 's Env" where
  "create_env t render_interval' =
     (if t = manager_based_env then create_manager_based_env render_interval'
      else if t = manager_based_rl_env then create_manager_based_rl_env render_interval'
      else create_direct_rl_env render_interval')"

definition assertEqual :: "'a \<Rightarrow> 'a \<Rightarrow> string \<Rightarrow> error + unit" where
  "assertEqual first second msg = (if first = second then Inr () else Inl (AssertionError msg))"

text \<open>\<open>assertAlmostEqual\<close> with its default of 7 places.\<close>

definition assertAlmostEqual :: "pyfloat \<Rightarrow> pyfloat \<Rightarrow> string \<Rightarrow> error + unit" where
  "assertAlmostEqual first second msg =
     (if first = second then Inr ()
      else if round_is_zero (fabs (fsub first second)) 7 then Inr ()
      else Inl (AssertionError msg))"

text \<open>
  The sub-test up to its stepping loop: the counters are reset, the environment is
  created, the rendering flag is set, the render mode is checked, the two callbacks are
  registered and the zero action is built.
\<close>

definition prepare ::
  "env_type \<Rightarrow> int \<Rightarrow> TestEnvRenderingLogic \<Rightarrow>
   error + (TestEnvRenderingLogic Env \<times> pyfloat list list \<times> TestEnvRenderingLogic)" where
  "prepare t render_interval' self =
     (let self1 = reset_counters self;
          env = create_env t render_interval';
          env1 = env\<lparr>sim_context :=
                   set_setting ''/isaaclab/render/rtx_sensors'' True (sim_context env)\<rparr>
      in case assertEqual (render_mode (sim_context env1)) PARTIAL_RENDERING
                ''Render mode mismatch'' of
           Inl e \<Rightarrow> Inl e
         | Inr _ \<Rightarrow>
             (let env2 = env1\<lparr>sim_context :=
                           add_physics_callback ''physics_step'' physics_callback
                             (sim_context env1)\<rparr>;
                  env3 = env2\<lparr>sim_context :=
                           add_render_callback ''render_step'' render_callback
                             (sim_context env2)\<rparr>;
                  actions' = zeros (nat (num_envs (scene (cfg env3)))) 0
              in Inr (env3, actions', self1)))"

text \<open>
  The expected values of the four checks after the step numbered \<open>i\<close>:
  \<open>(i + 1) * decimation\<close>, \<open>num_physics_steps * dt\<close>,
  \<open>(i + 1) * decimation // render_interval\<close> and
  \<open>num_render_steps * dt * render_interval\<close>.
\<close>

definition expected_physics_steps :: "nat \<Rightarrow> int \<Rightarrow> int" where
  "expected_physics_steps i D = (int i + 1) * D"

definition expected_physics_time :: "int \<Rightarrow> pyfloat \<Rightarrow> pyfloat" where
  "expected_physics_time n d = fmul (float_of_int n) d"

definition expected_render_steps :: "nat \<Rightarrow> int \<Rightarrow> int \<Rightarrow> int" where
  "expected_render_steps i D R = (int i + 1) * D div R"

definition expected_render_time :: "int \<Rightarrow> pyfloat \<Rightarrow> int \<Rightarrow> pyfloat" where
  "expected_render_time n d R = fmul (fmul (float_of_int n) d) (float_of_int R)"

text \<open>The four checks after the step numbered \<open>i\<close>.\<close>

definition check_step :: "nat \<Rightarrow> 's Env \<Rightarrow> TestEnvRenderingLogic \<Rightarrow> error + unit" where
  "check_step i env self =
     (case assertEqual (num_physics_steps self)
             (expected_physics_steps i (decimation (cfg env)))
             ''Physics steps mismatch'' of
        Inl e \<Rightarrow> Inl e
      | Inr _ \<Rightarrow>
     (case assertAlmostEqual (physics_time self)
             (expected_physics_time (num_physics_steps self) (dt (sim (cfg env))))
             ''Physics time mismatch'' of
        Inl e \<Rightarrow> Inl e
      | Inr _ \<Rightarrow>
     (if render_interval (sim (cfg env)) = 0 then Inl ZeroDivisionError
      else
     (case assertEqual (num_render_steps self)
             (expected_render_steps i (decimation (cfg env)) (render_interval (sim (cfg env))))
             ''Render steps mismatch'' of
        Inl e \<Rightarrow> Inl e
      | Inr _ \<Rightarrow>
          assertAlmostEqual (render_time self)
            (expected_render_time (num_render_steps self) (dt (sim (cfg env)))
               (render_interval (sim (cfg env))))
            ''Render time mismatch''))))"

text \<open>\<open>for i in range(50)\<close>: step, then check.\<close>

fun run_steps ::
  "(nat list \<Rightarrow> TestEnvRenderingLogic Env \<Rightarrow> TestEnvRenderingLogic \<Rightarrow>
      error + (TestEnvRenderingLogic Env \<times> TestEnvRenderingLogic)) \<Rightarrow>
   nat list \<Rightarrow> TestEnvRenderingLogic Env \<Rightarrow> pyfloat list list \<Rightarrow> TestEnvRenderingLogic \<Rightarrow>
   error + (TestEnvRenderingLogic Env \<times> TestEnvRenderingLogic)" where
  "run_steps reset_idx [] env actions' self = Inr (env, self)"
| "run_steps reset_idx (i # rest) env actions' self =
     (case step reset_idx env actions' self of
        Inl e \<Rightarrow> Inl e
      | Inr (env', self') \<Rightarrow>
          (case check_step i env' self' of
             Inl e \<Rightarrow> Inl e
           | Inr _ \<Rightarrow> run_steps reset_idx rest env' actions' self'))"

text \<open>One sub-test; closing the environment leaves the test instance.\<close>

definition subTest ::
  "(nat list \<Rightarrow> TestEnvRenderingLogic Env \<Rightarrow> TestEnvRenderingLogic \<Rightarrow>
      error + (TestEnvRenderingLogic Env \<times> TestEnvRenderingLogic)) \<Rightarrow>
   env_type \<Rightarrow> int \<Rightarrow> TestEnvRenderingLogic \<Rightarrow> error + TestEnvRenderingLogic" where
  "subTest reset_idx t render_interval' self =
     (case prepare t render_interval' self of
        Inl e \<Rightarrow> Inl e
      | Inr (env, actions', self') \<Rightarrow>
          (case run_steps reset_idx [0..<50] env actions' self' of
             Inl e \<Rightarrow> Inl e
           | Inr (env', self'') \<Rightarrow> Inr self''))"

text \<open>The state after \<open>n\<close> calls of \<open>env.step\<close>, the checks between them left out.\<close>

fun steps ::
  "(nat list \<Rightarrow> 's Env \<Rightarrow> 's \<Rightarrow> error + ('s Env \<times> 's)) \<Rightarrow>
   nat \<Rightarrow> 's Env \<Rightarrow> pyfloat list list \<Rightarrow> 's \<Rightarrow> error + ('s Env \<times> 's)" where
  "steps reset_idx 0 env actions' s = Inr (env, s)"
| "steps reset_idx (Suc n) env actions' s =
     (case step reset_idx env actions' s of
        Inl e \<Rightarrow> Inl e
      | Inr (env', s') \<Rightarrow> steps reset_idx n env' actions' s')"

text \<open>
  The state in which a sub-test finds itself after its first \<open>n\<close> environment steps: the
  sub-test is prepared from whatever test instance the earlier sub-tests left, then stepped.
\<close>

definition after_steps ::
  "(nat list \<Rightarrow> TestEnvRenderingLogic Env \<Rightarrow> TestEnvRenderingLogic \<Rightarrow>
      error + (TestEnvRenderingLogic Env \<times> TestEnvRenderingLogic)) \<Rightarrow>
   env_type \<Rightarrow> int \<Rightarrow> nat \<Rightarrow> TestEnvRenderingLogic \<Rightarrow>
   error + (TestEnvRenderingLogic Env \<times> TestEnvRenderingLogic)" where
  "after_steps reset_idx t render_interval' n self =
     (case prepare t render_interval' self of
        Inl e \<Rightarrow> Inl e
      | Inr (env, actions', self') \<Rightarrow> steps reset_idx n env actions' self')"

text \<open>The decimation of the configuration of each sub-test, in the order they run.\<close>

definition decimation_values :: "int list" where
  "decimation_values =
     map (\<lambda>(t, R). decimation (cfg (create_env t R :: TestEnvRenderingLogic Env))) subtests"

section \<open>The configuration of deformable objects\<close>

text \<open>
  A configuration class is the table of its fields with their defaults. The class
  \<open>DeformableObjectCfg(AssetBaseCfg)\<close> has the fields of its base, which is declared
  elsewhere and is a parameter here, and its own body, the one line
  \<open>class_type: type = DeformableObject\<close>. A default is a class or some other value.
\<close>

datatype 'a default = Class string | Other 'a

definition DeformableObjectCfg :: "(string \<rightharpoonup> 'a default) \<Rightarrow> (string \<rightharpoonup> 'a default)" where
  "DeformableObjectCfg AssetBaseCfg = AssetBaseCfg(''class_type'' \<mapsto> Class ''DeformableObject'')"

section \<open>The stepping loop in closed form\<close>

text \<open>
  An environment as the test has prepared it: the two callbacks of the test are the
  only ones registered, rendering is switched on, and the render interval is positive.
\<close>

definition ready :: "TestEnvRenderingLogic Env \<Rightarrow> bool" where
  "ready env \<longleftrightarrow>
     physics_callbacks (sim_context env) = [(''physics_step'', physics_callback)] \<and>
     render_callbacks (sim_context env) = [(''render_step'', render_callback)] \<and>
     is_rendering env \<and> 0 < render_interval (sim (cfg env))"

definition render_dt :: "'s Env \<Rightarrow> pyfloat" where
  "render_dt env = fmul (dt (sim (cfg env))) (float_of_int (render_interval (sim (cfg env))))"

text \<open>The rendering updates while the count of physics steps goes from \<open>c\<close> to \<open>c'\<close>.\<close>

definition renders_between :: "int \<Rightarrow> int \<Rightarrow> int \<Rightarrow> int" where
  "renders_between R c c' = c' div R - c div R"

text \<open>The test instance after \<open>n\<close> further physics steps, the count standing at \<open>c\<close>.\<close>

definition advance ::
  "int \<Rightarrow> pyfloat \<Rightarrow> pyfloat \<Rightarrow> int \<Rightarrow> nat \<Rightarrow> TestEnvRenderingLogic \<Rightarrow> TestEnvRenderingLogic" where
  "advance R d rd c n s =
     s\<lparr>physics_time := faccum n d (physics_time s),
       render_time := faccum (nat (renders_between R c (c + int n))) rd (render_time s),
       num_physics_steps := num_physics_steps s + int n,
       num_render_steps := num_render_steps s + renders_between R c (c + int n)\<rparr>"

section \<open>Evaluating the floats\<close>

text \<open>
  The length in bits of a positive binary numeral, read off its digits.
\<close>

fun num_bits :: "num \<Rightarrow> int" where
  "num_bits num.One = 1"
| "num_bits (num.Bit0 n) = num_bits n + 1"
| "num_bits (num.Bit1 n) = num_bits n + 1"

text \<open>
  What \<open>assertAlmostEqual\<close> accepts: equal floats, or a difference that rounds to
  zero at 7 decimal places.
\<close>

definition almost_equal :: "pyfloat \<Rightarrow> pyfloat \<Rightarrow> bool" where
  "almost_equal a b \<longleftrightarrow> a = b \<or> round_is_zero (fabs (fsub a b)) 7"

text \<open>
  \<open>accum_ok P n k d a\<close>: the property \<open>P\<close> holds of the count and the accumulator at
  every one of the next \<open>n\<close> additions of \<open>d\<close>, the count standing at \<open>k\<close> and the
  accumulator at \<open>a\<close>.
\<close>

fun accum_ok :: "(nat \<Rightarrow> pyfloat \<Rightarrow> bool) \<Rightarrow> nat \<Rightarrow> nat \<Rightarrow> pyfloat \<Rightarrow> pyfloat \<Rightarrow> bool" where
  "accum_ok P 0 k d a = P k a"
| "accum_ok P (Suc n) k d a = (P k a \<and> accum_ok P n (Suc k) d (fadd a d))"



section \<open>The time checks as predicates\<close>

text \<open>
  A reset that does nothing, for stating facts at concrete inputs.
\<close>

definition no_reset ::
  "nat list \<Rightarrow> TestEnvRenderingLogic Env \<Rightarrow> TestEnvRenderingLogic \<Rightarrow>
   error + (TestEnvRenderingLogic Env \<times> TestEnvRenderingLogic)" where
  "no_reset ids env s = Inr (env, s)"

text \<open>
  The stepping returned and \<open>physics_time\<close> is exactly
  \<open>num_physics_steps * dt\<close>.
\<close>

definition physics_time_exact ::
  "error + ('s Env \<times> TestEnvRenderingLogic) \<Rightarrow> bool" where
  "physics_time_exact r =
     (case r of
        Inl e \<Rightarrow> False
      | Inr (env, self) \<Rightarrow>
          physics_time self =
            expected_physics_time (num_physics_steps self) (dt (sim (cfg env))))"

text \<open>
  The stepping returned and the second check of the test passes.
\<close>

definition physics_time_checked ::
  "error + ('s Env \<times> TestEnvRenderingLogic) \<Rightarrow> bool" where
  "physics_time_checked r =
     (case r of
        Inl e \<Rightarrow> False
      | Inr (env, self) \<Rightarrow>
          assertAlmostEqual (physics_time self)
            (expected_physics_time (num_physics_steps self) (dt (sim (cfg env))))
            ''Physics time mismatch'' = Inr ())"

text \<open>
  The stepping returned and \<open>render_time\<close> is exactly
  \<open>num_render_steps * dt * render_interval\<close>.
\<close>

definition render_time_exact ::
  "error + ('s Env \<times> TestEnvRenderingLogic) \<Rightarrow> bool" where
  "render_time_exact r =
     (case r of
        Inl e \<Rightarrow> False
      | Inr (env, self) \<Rightarrow>
          render_time self =
            expected_render_time (num_render_steps self) (dt (sim (cfg env)))
              (render_interval (sim (cfg env))))"

text \<open>
  The stepping returned and the fourth check of the test passes.
\<close>

definition render_time_checked ::
  "error + ('s Env \<times> TestEnvRenderingLogic) \<Rightarrow> bool" where
  "render_time_checked r =
     (case r of
        Inl e \<Rightarrow> False
      | Inr (env, self) \<Rightarrow>
          assertAlmostEqual (render_time self)
            (expected_render_time (num_render_steps self) (dt (sim (cfg env)))
               (render_interval (sim (cfg env))))
            ''Render time mismatch'' = Inr ())"

lemma div_Suc_int:
  fixes c R :: int
  assumes "0 < R"
  shows "(c + 1) div R = c div R + (if (c + 1) mod R = 0 then 1 else 0)"
proof -
  define q m where "q = c div R" and "m = c mod R"
  have c: "c = R * q + m" and m: "0 \<le> m" "m < R"
    using assms by (simp_all add: q_def m_def)
  have d: "(c + 1) div R = q + (m + 1) div R"
    unfolding c using assms by (simp add: add.assoc)
  have md: "(c + 1) mod R = (m + 1) mod R"
    unfolding c by (simp add: add.assoc)
  show ?thesis
  proof (cases "m + 1 < R")
    case True
    then have "(m + 1) div R = 0" "(m + 1) mod R = m + 1" using m by simp_all
    then show ?thesis using d md m by (simp add: q_def)
  next
    case False
    then have "m + 1 = R" using m by simp
    then have "(m + 1) div R = 1" "(m + 1) mod R = 0" using assms by simp_all
    then show ?thesis using d md by (simp add: q_def)
  qed
qed

lemma physics_step_ready:
  "ready env \<Longrightarrow> physics_step env s = physics_callback s (dt (sim (cfg env)))"
  by (simp add: ready_def physics_step_def)

lemma render_ready:
  "ready env \<Longrightarrow> render env s =
     Inr (s\<lparr>render_time := fadd (render_time s) (render_dt env),
            num_render_steps := num_render_steps s + 1\<rparr>)"
  by (simp add: ready_def render_def render_callback_def render_dt_def)

lemma ready_counter [simp]: "ready (env\<lparr>sim_step_counter := c\<rparr>) = ready env"
  by (simp add: ready_def is_rendering_def)

lemma render_dt_counter [simp]: "render_dt (env\<lparr>sim_step_counter := c\<rparr>) = render_dt env"
  by (simp add: render_dt_def)

lemma renders_between_nonneg:
  "0 < R \<Longrightarrow> c \<le> c' \<Longrightarrow> 0 \<le> renders_between R c c'"
  by (simp add: renders_between_def zdiv_mono1)

lemma faccum_Suc_nat:
  "0 \<le> k \<Longrightarrow> faccum (nat (1 + k)) d a = faccum (nat k) d (fadd a d)"
  by (simp add: nat_add_distrib)

lemma faccum_add: "faccum (m + n) d a = faccum n d (faccum m d a)"
  by (induction m arbitrary: a) simp_all

lemma advance_0: "advance R d rd c 0 s = s"
  by (simp add: advance_def renders_between_def)

lemma advance_advance:
  assumes "0 < R"
  shows "advance R d rd (c + int m) n (advance R d rd c m s) = advance R d rd c (m + n) s"
proof -
  let ?k1 = "renders_between R c (c + int m)"
  let ?k2 = "renders_between R (c + int m) (c + int m + int n)"
  have n1: "0 \<le> ?k1" and n2: "0 \<le> ?k2"
    using assms by (simp_all add: renders_between_nonneg)
  have sum: "renders_between R c (c + int (m + n)) = ?k1 + ?k2"
    by (simp add: renders_between_def add.assoc)
  have nat_sum: "nat (renders_between R c (c + int (m + n))) = nat ?k1 + nat ?k2"
    unfolding sum using n1 n2 by (simp add: nat_add_distrib)
  show ?thesis
  proof (rule TestEnvRenderingLogic.equality)
    show "physics_time (advance R d rd (c + int m) n (advance R d rd c m s)) =
          physics_time (advance R d rd c (m + n) s)"
      by (simp add: advance_def faccum_add)
    show "render_time (advance R d rd (c + int m) n (advance R d rd c m s)) =
          render_time (advance R d rd c (m + n) s)"
      unfolding advance_def nat_sum by (simp add: faccum_add)
    show "num_physics_steps (advance R d rd (c + int m) n (advance R d rd c m s)) =
          num_physics_steps (advance R d rd c (m + n) s)"
      by (simp add: advance_def)
    show "num_render_steps (advance R d rd (c + int m) n (advance R d rd c m s)) =
          num_render_steps (advance R d rd c (m + n) s)"
      unfolding advance_def sum by simp
    show "TestEnvRenderingLogic.more (advance R d rd (c + int m) n (advance R d rd c m s)) =
          TestEnvRenderingLogic.more (advance R d rd c (m + n) s)"
      by (simp add: advance_def)
  qed
qed

lemma decimation_loop_ready:
  assumes "ready env"
  shows "decimation_loop n env s =
     Inr (env\<lparr>sim_step_counter := sim_step_counter env + int n\<rparr>,
          advance (render_interval (sim (cfg env))) (dt (sim (cfg env))) (render_dt env)
            (sim_step_counter env) n s)"
  using assms
proof (induction n arbitrary: env s)
  case 0
  then show ?case by (simp add: advance_0)
next
  case (Suc n)
  let ?R = "render_interval (sim (cfg env))"
  let ?c = "sim_step_counter env"
  let ?d = "dt (sim (cfg env))"
  let ?env' = "env\<lparr>sim_step_counter := ?c + 1\<rparr>"
  have R: "0 < ?R" and rend: "is_rendering ?env'"
    using Suc.prems by (simp_all add: ready_def is_rendering_def)
  have ready': "ready ?env'" using Suc.prems by simp
  have IH: "decimation_loop n ?env' s' =
     Inr (env\<lparr>sim_step_counter := ?c + int (Suc n)\<rparr>,
          advance ?R ?d (render_dt env) (?c + int 1) n s')" for s'
    using Suc.IH [OF ready', of s'] by (simp add: add.assoc)
  have one: "advance ?R ?d (render_dt env) ?c 1 s =
     (if (?c + 1) mod ?R = 0
      then (physics_callback s ?d)\<lparr>render_time := fadd (render_time s) (render_dt env),
              num_render_steps := num_render_steps s + 1\<rparr>
      else physics_callback s ?d)"
    using div_Suc_int [OF R, of ?c]
    by (simp add: advance_def renders_between_def physics_callback_def)
  have "decimation_loop (Suc n) env s =
        Inr (env\<lparr>sim_step_counter := ?c + int (Suc n)\<rparr>,
             advance ?R ?d (render_dt env) (?c + int 1) n (advance ?R ?d (render_dt env) ?c 1 s))"
    unfolding one using R rend
    by (simp add: Let_def physics_step_ready [OF ready'] render_ready [OF ready'] IH
          physics_callback_def del: of_nat_Suc)
  then show ?case
    unfolding advance_advance [OF R] by simp
qed

lemma step_ready:
  assumes "ready env"
  shows "step reset_idx env actions' s = decimation_loop (nat (decimation (cfg env))) env s"
  by (simp add: step_def decimation_loop_ready [OF assms] get_dones_def zeros_bool_def)

lemma steps_ready:
  assumes "ready env"
  shows "steps reset_idx k env actions' s =
     Inr (env\<lparr>sim_step_counter := sim_step_counter env + int (k * nat (decimation (cfg env)))\<rparr>,
          advance (render_interval (sim (cfg env))) (dt (sim (cfg env))) (render_dt env)
            (sim_step_counter env) (k * nat (decimation (cfg env))) s)"
  using assms
proof (induction k arbitrary: env s)
  case 0
  then show ?case by (simp add: advance_0)
next
  case (Suc k)
  let ?D = "nat (decimation (cfg env))"
  let ?R = "render_interval (sim (cfg env))"
  let ?c = "sim_step_counter env"
  let ?d = "dt (sim (cfg env))"
  let ?env' = "env\<lparr>sim_step_counter := ?c + int ?D\<rparr>"
  have R: "0 < ?R" using Suc.prems by (simp add: ready_def)
  have ready': "ready ?env'" using Suc.prems by simp
  have IH: "steps reset_idx k ?env' actions' s' =
     Inr (env\<lparr>sim_step_counter := ?c + int (Suc k * ?D)\<rparr>,
          advance ?R ?d (render_dt env) (?c + int ?D) (k * ?D) s')" for s'
    using Suc.IH [OF ready', of s'] by (simp add: add.assoc)
  have "steps reset_idx (Suc k) env actions' s =
        Inr (env\<lparr>sim_step_counter := ?c + int (Suc k * ?D)\<rparr>,
             advance ?R ?d (render_dt env) (?c + int ?D) (k * ?D)
               (advance ?R ?d (render_dt env) ?c ?D s))"
    unfolding steps.simps step_ready [OF Suc.prems] decimation_loop_ready [OF Suc.prems]
    by (simp only: sum.case prod.case IH)
  then show ?case
    unfolding advance_advance [OF R] by simp
qed

section \<open>The sub-tests\<close>

lemma cfg_create_env:
  "decimation (cfg (create_env t R)) = 4"
  "dt (sim (cfg (create_env t R))) = float_of_ratio 5 1000"
  "render_interval (sim (cfg (create_env t R))) = R"
  "num_envs (scene (cfg (create_env t R))) = 1"
  by (simp_all add: create_env_def create_manager_based_env_def create_manager_based_rl_env_def
        create_direct_rl_env_def new_env_def manager_based_EnvCfg_def
        manager_based_rl_EnvCfg_def direct_rl_EnvCfg_def)

lemma create_env_fresh:
  "sim_step_counter (create_env t R) = 0"
  "sim_context (create_env t R) =
     \<lparr>settings = [], render_mode = PARTIAL_RENDERING, physics_callbacks = [], render_callbacks = []\<rparr>"
  by (simp_all add: create_env_def create_manager_based_env_def create_manager_based_rl_env_def
        create_direct_rl_env_def new_env_def)

lemma prepare_Inr:
  obtains env where
    "prepare t R self = Inr (env, zeros 1 0, reset_counters self)"
    "cfg env = cfg (create_env t R :: TestEnvRenderingLogic Env)"
    "sim_step_counter env = 0"
    "0 < R \<Longrightarrow> ready env"
proof
  let ?e = "create_env t R :: TestEnvRenderingLogic Env"
  let ?env = "?e\<lparr>sim_context :=
      \<lparr>settings = [(''/isaaclab/render/rtx_sensors'', True)], render_mode = PARTIAL_RENDERING,
       physics_callbacks = [(''physics_step'', physics_callback)],
       render_callbacks = [(''render_step'', render_callback)]\<rparr>\<rparr>"
  show "prepare t R self = Inr (?env, zeros 1 0, reset_counters self)"
    by (simp add: prepare_def Let_def create_env_fresh cfg_create_env set_setting_def
          assertEqual_def add_physics_callback_def add_render_callback_def)
  show "cfg ?env = cfg ?e" by simp
  show "sim_step_counter ?env = 0" by (simp add: create_env_fresh)
  show "ready ?env" if "0 < R"
    using that by (simp add: ready_def is_rendering_def cfg_create_env)
qed

lemma after_steps_ready:
  assumes "0 < R"
  obtains env where
    "after_steps reset_idx t R n self =
       Inr (env, advance R (float_of_ratio 5 1000)
                   (fmul (float_of_ratio 5 1000) (float_of_int R)) 0 (n * 4)
                   (reset_counters self))"
    "cfg env = cfg (create_env t R :: TestEnvRenderingLogic Env)"
proof -
  obtain env0 where p: "prepare t R self = Inr (env0, zeros 1 0, reset_counters self)"
    and c: "cfg env0 = cfg (create_env t R :: TestEnvRenderingLogic Env)"
    and z: "sim_step_counter env0 = 0" and r: "ready env0"
    using prepare_Inr [of t R self] assms by blast
  show thesis
  proof
    show "after_steps reset_idx t R n self =
       Inr (env0\<lparr>sim_step_counter := int (n * 4)\<rparr>,
            advance R (float_of_ratio 5 1000)
              (fmul (float_of_ratio 5 1000) (float_of_int R)) 0 (n * 4) (reset_counters self))"
      by (simp add: after_steps_def p steps_ready [OF r] c z cfg_create_env render_dt_def)
    show "cfg (env0\<lparr>sim_step_counter := int (n * 4)\<rparr>) =
          cfg (create_env t R :: TestEnvRenderingLogic Env)"
      by (simp add: c)
  qed
qed

lemma subtests_interval: "(t, R) \<in> set subtests \<Longrightarrow> R \<in> {1, 2, 4, 8, 10}"
  by (auto simp: subtests_def)

lemma subtests_pos: "(t, R) \<in> set subtests \<Longrightarrow> 0 < R"
  by (auto dest: subtests_interval)

section \<open>Step counts\<close>





text \<open>
  C8. The expected counts of the test satisfy
  \<open>((i + 1) * D // R) * R \<le> (i + 1) * D\<close> for every \<open>i\<close>, every decimation
  \<open>D \<ge> 1\<close> and every render interval \<open>R \<ge> 1\<close>: the render steps times the render
  interval never exceed the physics steps.
\<close>

theorem render_steps_bounded_by_physics_steps:
  assumes "1 \<le> D" and "1 \<le> R"
  shows "expected_render_steps i D R * R \<le> expected_physics_steps i D"
proof -
  define a where "a = (int i + 1) * D"
  have "a div R * R + a mod R = a" by simp
  moreover have "0 \<le> a mod R" using assms(2) by simp
  ultimately have "a div R * R \<le> a" by linarith
  then show ?thesis
    by (simp add: expected_render_steps_def expected_physics_steps_def a_def)
qed

text \<open>
  The theorem at the first step with render interval 10, where no rendering has happened.
\<close>

theorem render_steps_bounded_by_physics_steps_witness:
  "(1 :: int) \<le> 4 \<and> (1 :: int) \<le> 10 \<and>
   expected_render_steps 0 4 10 * 10 \<le> expected_physics_steps 0 4"
  using render_steps_bounded_by_physics_steps [of 4 10 0] by simp

section \<open>The settings the test exercises\<close>

text \<open>
  C5, as stated, fails: the sub-tests do not use two distinct decimation values. The
  fifteen configurations all declare \<open>decimation = 4\<close>.
\<close>

theorem decimation_not_varied: "\<not> 2 \<le> card (set decimation_values)"
  by (simp add: decimation_values_def subtests_def cfg_create_env)

text \<open>
  C5, amended. The test uses the single decimation 4 in all fifteen sub-tests; what
  varies is the render interval, over 1, 2, 4, 8 and 10, across the three environment
  flavours.
\<close>

theorem decimation_fixed_interval_varied:
  "decimation_values = replicate 15 4 \<and>
   remdups (map snd subtests) = [1, 2, 4, 8, 10] \<and>
   remdups (map fst subtests) = [manager_based_env, manager_based_rl_env, direct_rl_env]"
  by (simp add: decimation_values_def subtests_def cfg_create_env numeral_eq_Suc)

text \<open>
  C6. Every sub-test, whatever the test instance held before, reaches its stepping
  loop with \<open>physics_time\<close> and \<open>render_time\<close> at \<open>0.0\<close> and \<open>num_physics_steps\<close> and
  \<open>num_render_steps\<close> at 0, in an environment that has taken no physics step; the
  stepping loop starts from this state.
\<close>

theorem counters_reset_per_subtest:
  "\<exists>env actions' self'.
     prepare t R self = Inr (env, actions', self') \<and>
     physics_time self' = float_of_ratio 0 10 \<and> render_time self' = float_of_ratio 0 10 \<and>
     num_physics_steps self' = 0 \<and> num_render_steps self' = 0 \<and>
     sim_step_counter env = 0 \<and>
     subTest reset_idx t R self =
       (case run_steps reset_idx [0..<50] env actions' self' of
          Inl e \<Rightarrow> Inl e
        | Inr (env', self'') \<Rightarrow> Inr self'')"
proof -
  obtain env where p: "prepare t R self = Inr (env, zeros 1 0, reset_counters self)"
    and z: "sim_step_counter env = 0"
    using prepare_Inr [of t R self] by blast
  show ?thesis
    by (simp add: p z subTest_def reset_counters_def)
qed

section \<open>The direct workflow never resets\<close>

text \<open>
  C10. \<open>_get_dones\<close> of the direct test environment returns two all-false tensors on
  every call, so an environment step never reaches the reset: whatever the reset would
  do, the step is the decimation loop alone and the counters accumulate across the steps.
\<close>

theorem direct_env_never_done:
  "get_dones self = ([False], [False]) \<and>
   step reset_idx env actions' s = decimation_loop (nat (decimation (cfg env))) env s"
  by (cases "decimation_loop (nat (decimation (cfg env))) env s")
     (auto simp: step_def get_dones_def zeros_bool_def)

section \<open>The deformable object configuration binds its class\<close>

text \<open>
  C7. \<open>DeformableObjectCfg\<close> has the fields of \<open>AssetBaseCfg\<close>, binds \<open>class_type\<close> to
  the class \<open>DeformableObject\<close>, and adds or changes nothing else: its fields are those
  of the base together with \<open>class_type\<close>, and every other field keeps the default of
  the base.
\<close>

theorem DeformableObjectCfg_binding:
  "DeformableObjectCfg base ''class_type'' = Some (Class ''DeformableObject'') \<and>
   dom (DeformableObjectCfg base) = insert ''class_type'' (dom base) \<and>
   DeformableObjectCfg base |` (- {''class_type''}) = base |` (- {''class_type''})"
  by (auto simp: DeformableObjectCfg_def restrict_map_def fun_eq_iff)

section \<open>Rounding and powers of two\<close>














section \<open>Elapsed times\<close>

text \<open>
  The floats are evaluated on binary numerals: the bit length by the digits, the
  divisions and multiplications by powers of two as shifts.
\<close>

lemma bitlen_numeral: "bitlen (numeral n) = num_bits n"
proof (induction n)
  case One
  show ?case by (simp add: compute_bitlen)
next
  case (Bit0 n)
  have "bitlen (numeral (num.Bit0 n)) = bitlen (numeral n) + 1"
    by (subst compute_bitlen) simp
  then show ?case using Bit0 by simp
next
  case (Bit1 n)
  have "bitlen (numeral (num.Bit1 n)) = bitlen (numeral n) + 1"
    by (subst compute_bitlen) simp
  then show ?case using Bit1 by simp
qed

lemma bitlen_code [code]:
  "bitlen (Int.Pos n) = num_bits n"
  "bitlen (Int.Neg n) = 0"
  "bitlen 0 = 0"
  by (simp_all add: bitlen_numeral Int.Pos_def Int.Neg_def bitlen_eq_zero_iff)

lemma power_53: "(2 :: int) ^ 53 = 9007199254740992"
  by simp

lemma power_52: "(2 :: int) ^ 52 = 4503599627370496"
  by simp

lemma round_mantissa_code [code]:
  "round_mantissa M E =
     (if M = 0 then PyFloat 0 0
      else let a = \<bar>M\<bar>; bl = bitlen a in
        if bl \<le> 53 then PyFloat (push_bit (nat (53 - bl)) M) (E - (53 - bl))
        else let sh = nat (bl - 53);
                 q = drop_bit sh a;
                 r = a - push_bit sh q;
                 half = push_bit (sh - 1) 1;
                 q' = (if r < half then q else if half < r then q + 1
                       else if even q then q else q + 1)
             in if q' = 9007199254740992 then PyFloat (sgn M * 4503599627370496) (E + int sh + 1)
                else PyFloat (sgn M * q') (E + int sh))"
  unfolding round_mantissa_def Let_def push_bit_eq_mult drop_bit_eq_div minus_div_mult_eq_mod
  by (simp only: mult_1 power_53 [symmetric] power_52 [symmetric])

lemma fadd_code [code]:
  "fadd a b =
     (let e = min (exponent a) (exponent b)
      in round_mantissa
           (push_bit (nat (exponent a - e)) (mantissa a) +
            push_bit (nat (exponent b - e)) (mantissa b)) e)"
  by (simp add: fadd_def Let_def push_bit_eq_mult)

lemma accum_ok_faccum:
  "accum_ok P n k d a \<Longrightarrow> j \<le> n \<Longrightarrow> P (k + j) (faccum j d a)"
proof (induction n arbitrary: k a j)
  case 0
  then show ?case by simp
next
  case (Suc n)
  show ?case
  proof (cases j)
    case 0
    then show ?thesis using Suc.prems by simp
  next
    case (Suc j')
    then show ?thesis using Suc.prems Suc.IH [of "Suc k" "fadd a d" j'] by simp
  qed
qed

lemma assertAlmostEqual_iff:
  "assertAlmostEqual a b msg = Inr () \<longleftrightarrow> almost_equal a b"
  by (simp add: assertAlmostEqual_def almost_equal_def)

lemma dt_value: "float_of_ratio 5 1000 = PyFloat 5764607523034235 (- 60)"
  by code_simp

lemma zero_value: "float_of_ratio 0 10 = PyFloat 0 0"
  by code_simp

lemma render_dt_values:
  "fmul (PyFloat 5764607523034235 (- 60)) (float_of_int 1) = PyFloat 5764607523034235 (- 60)"
  "fmul (PyFloat 5764607523034235 (- 60)) (float_of_int 2) = PyFloat 5764607523034235 (- 59)"
  "fmul (PyFloat 5764607523034235 (- 60)) (float_of_int 4) = PyFloat 5764607523034235 (- 58)"
  "fmul (PyFloat 5764607523034235 (- 60)) (float_of_int 8) = PyFloat 5764607523034235 (- 57)"
  "fmul (PyFloat 5764607523034235 (- 60)) (float_of_int 10) = PyFloat 7205759403792794 (- 57)"
  by code_simp+

lemma faccum_12:
  "faccum 12 (PyFloat 5764607523034235 (- 60)) (PyFloat 0 0) = PyFloat 8646911284551351 (- 57)"
  by code_simp

lemma faccum_6:
  "faccum 6 (PyFloat 5764607523034235 (- 59)) (PyFloat 0 0) = PyFloat 8646911284551353 (- 57)"
  by code_simp

lemma expected_12:
  "expected_physics_time 12 (PyFloat 5764607523034235 (- 60)) = PyFloat 8646911284551352 (- 57)"
  "expected_render_time 12 (PyFloat 5764607523034235 (- 60)) 1 = PyFloat 8646911284551352 (- 57)"
  "expected_render_time 6 (PyFloat 5764607523034235 (- 60)) 2 = PyFloat 8646911284551352 (- 57)"
  by code_simp+

lemma physics_ok:
  "accum_ok (\<lambda>k a. k mod 4 = 0 \<longrightarrow>
       almost_equal a (expected_physics_time (int k) (PyFloat 5764607523034235 (- 60))) \<and>
       almost_equal a (expected_render_time (int k) (PyFloat 5764607523034235 (- 60)) 1))
     200 0 (PyFloat 5764607523034235 (- 60)) (PyFloat 0 0)"
  by code_simp

lemma render_ok_2:
  "accum_ok (\<lambda>k a. k mod 2 = 0 \<longrightarrow>
       almost_equal a (expected_render_time (int k) (PyFloat 5764607523034235 (- 60)) 2))
     100 0 (PyFloat 5764607523034235 (- 59)) (PyFloat 0 0)"
  by code_simp

lemma render_ok_4:
  "accum_ok (\<lambda>k a. k mod 1 = 0 \<longrightarrow>
       almost_equal a (expected_render_time (int k) (PyFloat 5764607523034235 (- 60)) 4))
     50 0 (PyFloat 5764607523034235 (- 58)) (PyFloat 0 0)"
  by code_simp

lemma render_ok_8:
  "accum_ok (\<lambda>k a. k mod 1 = 0 \<longrightarrow>
       almost_equal a (expected_render_time (int k) (PyFloat 5764607523034235 (- 60)) 8))
     25 0 (PyFloat 5764607523034235 (- 57)) (PyFloat 0 0)"
  by code_simp

lemma render_ok_10:
  "accum_ok (\<lambda>k a. k mod 1 = 0 \<longrightarrow>
       almost_equal a (expected_render_time (int k) (PyFloat 5764607523034235 (- 60)) 10))
     20 0 (PyFloat 7205759403792794 (- 57)) (PyFloat 0 0)"
  by code_simp

lemma physics_almost:
  assumes "j \<le> 200" and "j mod 4 = 0"
  shows "almost_equal (faccum j (PyFloat 5764607523034235 (- 60)) (PyFloat 0 0))
           (expected_physics_time (int j) (PyFloat 5764607523034235 (- 60)))"
    and "almost_equal (faccum j (PyFloat 5764607523034235 (- 60)) (PyFloat 0 0))
           (expected_render_time (int j) (PyFloat 5764607523034235 (- 60)) 1)"
  using accum_ok_faccum [OF physics_ok assms(1)] assms(2) by simp_all

lemma render_almost_from:
  assumes "accum_ok (\<lambda>k a. k mod g = 0 \<longrightarrow>
             almost_equal a (expected_render_time (int k) d R)) n 0 rd (PyFloat 0 0)"
    and "j \<le> n" and "j mod g = 0"
  shows "almost_equal (faccum j rd (PyFloat 0 0)) (expected_render_time (int j) d R)"
  using accum_ok_faccum [OF assms(1) assms(2)] assms(3) by simp

lemma render_almost:
  assumes "(t, R) \<in> set subtests" and "i < 50"
  shows "almost_equal
           (faccum (nat (int (Suc i * 4) div R))
              (fmul (PyFloat 5764607523034235 (- 60)) (float_of_int R)) (PyFloat 0 0))
           (expected_render_time (int (Suc i * 4) div R) (PyFloat 5764607523034235 (- 60)) R)"
proof -
  define j where "j = Suc i * 4 div nat R"
  from assms(1) have R: "R \<in> {1, 2, 4, 8, 10}" by (rule subtests_interval)
  then have kj: "int (Suc i * 4) div R = int j"
    by (auto simp: j_def zdiv_int)
  from R consider "R = 1" | "R = 2" | "R = 4" | "R = 8" | "R = 10" by blast
  then have "almost_equal
               (faccum j (fmul (PyFloat 5764607523034235 (- 60)) (float_of_int R)) (PyFloat 0 0))
               (expected_render_time (int j) (PyFloat 5764607523034235 (- 60)) R)"
  proof cases
    case 1
    have "j \<le> 200" "j mod 4 = 0" using assms(2) by (simp_all add: j_def 1)
    then show ?thesis unfolding 1 render_dt_values by (rule physics_almost(2))
  next
    case 2
    have "j \<le> 100" "j mod 2 = 0" using assms(2) by (auto simp: j_def 2)
    then show ?thesis unfolding 2 render_dt_values by (rule render_almost_from [OF render_ok_2])
  next
    case 3
    have "j \<le> 50" "j mod 1 = 0" using assms(2) by (simp_all add: j_def 3)
    then show ?thesis unfolding 3 render_dt_values by (rule render_almost_from [OF render_ok_4])
  next
    case 4
    have "j \<le> 25" "j mod 1 = 0" using assms(2) by (simp_all add: j_def 4)
    then show ?thesis unfolding 4 render_dt_values by (rule render_almost_from [OF render_ok_8])
  next
    case 5
    have "j \<le> 20" "j mod 1 = 0" using assms(2) by (simp_all add: j_def 5)
    then show ?thesis unfolding 5 render_dt_values by (rule render_almost_from [OF render_ok_10])
  qed
  then show ?thesis unfolding kj nat_int .
qed

text \<open>
  C3, as stated, fails: the accumulated \<open>physics_time\<close> is not equal to
  \<open>num_physics_steps * dt\<close> after every step. After the third step of the sub-test
  with the manager-based environment and render interval 1, twelve additions of
  \<open>0.005\<close> have given \<open>0.05999999999999999\<close>, and \<open>12 * 0.005\<close> is \<open>0.06\<close>, one unit
  in the last place above.
\<close>

theorem physics_time_not_exact:
  "map_sum id snd
     (after_steps no_reset manager_based_env 1 3
        \<lparr>physics_time = PyFloat 0 0, render_time = PyFloat 0 0,
         num_physics_steps = 0, num_render_steps = 0\<rparr>) =
   Inr \<lparr>physics_time = PyFloat 8646911284551351 (- 57),
        render_time = PyFloat 8646911284551351 (- 57),
        num_physics_steps = 12, num_render_steps = 12\<rparr> \<and>
   expected_physics_time 12 (float_of_ratio 5 1000) = PyFloat 8646911284551352 (- 57) \<and>
   \<not> physics_time_exact
       (after_steps no_reset manager_based_env 1 3
          \<lparr>physics_time = PyFloat 0 0, render_time = PyFloat 0 0,
           num_physics_steps = 0, num_render_steps = 0\<rparr>)"
proof -
  let ?s0 = "\<lparr>physics_time = PyFloat 0 0, render_time = PyFloat 0 0,
              num_physics_steps = 0, num_render_steps = 0\<rparr>"
  obtain env where
    a: "after_steps no_reset manager_based_env 1 3 ?s0 =
       Inr (env, advance 1 (float_of_ratio 5 1000)
                   (fmul (float_of_ratio 5 1000) (float_of_int 1)) 0 (3 * 4)
                   (reset_counters ?s0))"
    and c: "cfg env = cfg (create_env manager_based_env 1 :: TestEnvRenderingLogic Env)"
    using after_steps_ready [of 1 no_reset manager_based_env 3 ?s0] by auto
  have s: "advance 1 (float_of_ratio 5 1000)
             (fmul (float_of_ratio 5 1000) (float_of_int 1)) 0 (3 * 4) (reset_counters ?s0) =
           \<lparr>physics_time = PyFloat 8646911284551351 (- 57),
            render_time = PyFloat 8646911284551351 (- 57),
            num_physics_steps = 12, num_render_steps = 12\<rparr>"
    by (simp add: advance_def reset_counters_def renders_between_def dt_value zero_value
          render_dt_values faccum_12)
  show ?thesis
    unfolding a s
    by (simp add: physics_time_exact_def c cfg_create_env dt_value expected_12)
qed

text \<open>
  C3, amended. In every sub-test and after every one of its 50 calls of \<open>env.step\<close>,
  the accumulated \<open>physics_time\<close> is almost equal to \<open>num_physics_steps * dt\<close> in the
  sense of \<open>assertAlmostEqual\<close>: the two are equal or their difference rounds to zero
  at 7 decimal places, so that the second check of the test passes.
\<close>

theorem physics_time_almost_equal:
  assumes "(t, R) \<in> set subtests" and "i < 50"
  shows "physics_time_checked (after_steps reset_idx t R (Suc i) self)"
proof -
  from assms(1) have R: "0 < R" by (rule subtests_pos)
  obtain env where
    a: "after_steps reset_idx t R (Suc i) self =
          Inr (env, advance R (float_of_ratio 5 1000)
                      (fmul (float_of_ratio 5 1000) (float_of_int R)) 0 (Suc i * 4)
                      (reset_counters self))"
    and c: "cfg env = cfg (create_env t R :: TestEnvRenderingLogic Env)"
    using after_steps_ready [OF R] by blast
  show ?thesis
    unfolding a physics_time_checked_def
    using physics_almost(1) [of "Suc i * 4"] assms(2)
    by (simp add: c cfg_create_env advance_def reset_counters_def assertAlmostEqual_iff
          dt_value zero_value)
qed

text \<open>
  The theorem at the last step of a sub-test.
\<close>

theorem physics_time_almost_equal_witness:
  "(manager_based_rl_env, 4) \<in> set subtests \<and> (49 :: nat) < 50 \<and>
   physics_time_checked
     (after_steps no_reset manager_based_rl_env 4 (Suc 49)
        \<lparr>physics_time = PyFloat 0 0, render_time = PyFloat 0 0,
         num_physics_steps = 0, num_render_steps = 0\<rparr>)"
proof -
  have m: "(manager_based_rl_env, 4) \<in> set subtests" by (simp add: subtests_def)
  have i: "(49 :: nat) < 50" by simp
  show ?thesis using m i physics_time_almost_equal [OF m i] by blast
qed

text \<open>
  C4, as stated, fails: the accumulated \<open>render_time\<close> is not equal to
  \<open>num_render_steps * dt * R\<close> after every step. After the third step of the sub-test
  with the manager-based environment and render interval 2, six additions of
  \<open>0.01\<close> have given \<open>0.060000000000000005\<close>, and \<open>6 * 0.005 * 2\<close> is \<open>0.06\<close>, one unit
  in the last place below.
\<close>

theorem render_time_not_exact:
  "map_sum id snd
     (after_steps no_reset manager_based_env 2 3
        \<lparr>physics_time = PyFloat 0 0, render_time = PyFloat 0 0,
         num_physics_steps = 0, num_render_steps = 0\<rparr>) =
   Inr \<lparr>physics_time = PyFloat 8646911284551351 (- 57),
        render_time = PyFloat 8646911284551353 (- 57),
        num_physics_steps = 12, num_render_steps = 6\<rparr> \<and>
   expected_render_time 6 (float_of_ratio 5 1000) 2 = PyFloat 8646911284551352 (- 57) \<and>
   \<not> render_time_exact
       (after_steps no_reset manager_based_env 2 3
          \<lparr>physics_time = PyFloat 0 0, render_time = PyFloat 0 0,
           num_physics_steps = 0, num_render_steps = 0\<rparr>)"
proof -
  let ?s0 = "\<lparr>physics_time = PyFloat 0 0, render_time = PyFloat 0 0,
              num_physics_steps = 0, num_render_steps = 0\<rparr>"
  obtain env where
    a: "after_steps no_reset manager_based_env 2 3 ?s0 =
       Inr (env, advance 2 (float_of_ratio 5 1000)
                   (fmul (float_of_ratio 5 1000) (float_of_int 2)) 0 (3 * 4)
                   (reset_counters ?s0))"
    and c: "cfg env = cfg (create_env manager_based_env 2 :: TestEnvRenderingLogic Env)"
    using after_steps_ready [of 2 no_reset manager_based_env 3 ?s0] by auto
  have s: "advance 2 (float_of_ratio 5 1000)
             (fmul (float_of_ratio 5 1000) (float_of_int 2)) 0 (3 * 4) (reset_counters ?s0) =
           \<lparr>physics_time = PyFloat 8646911284551351 (- 57),
            render_time = PyFloat 8646911284551353 (- 57),
            num_physics_steps = 12, num_render_steps = 6\<rparr>"
    by (simp add: advance_def reset_counters_def renders_between_def dt_value zero_value
          render_dt_values faccum_12 faccum_6)
  show ?thesis
    unfolding a s
    by (simp add: render_time_exact_def c cfg_create_env dt_value expected_12)
qed

text \<open>
  C4, amended. In every sub-test and after every one of its 50 calls of \<open>env.step\<close>,
  the accumulated \<open>render_time\<close> is almost equal to \<open>num_render_steps * dt * R\<close> in the
  sense of \<open>assertAlmostEqual\<close>, so that the fourth check of the test passes.
\<close>

theorem render_time_almost_equal:
  assumes "(t, R) \<in> set subtests" and "i < 50"
  shows "render_time_checked (after_steps reset_idx t R (Suc i) self)"
proof -
  from assms(1) have R: "0 < R" by (rule subtests_pos)
  obtain env where
    a: "after_steps reset_idx t R (Suc i) self =
          Inr (env, advance R (float_of_ratio 5 1000)
                      (fmul (float_of_ratio 5 1000) (float_of_int R)) 0 (Suc i * 4)
                      (reset_counters self))"
    and c: "cfg env = cfg (create_env t R :: TestEnvRenderingLogic Env)"
    using after_steps_ready [OF R] by blast
  show ?thesis
    unfolding a render_time_checked_def
    using render_almost [OF assms]
    by (simp add: c cfg_create_env advance_def reset_counters_def assertAlmostEqual_iff
          dt_value zero_value renders_between_def)
qed

text \<open>
  The theorem at render interval 10, after the step numbered 44.
\<close>

theorem render_time_almost_equal_witness:
  "(direct_rl_env, 10) \<in> set subtests \<and> (44 :: nat) < 50 \<and>
   render_time_checked
     (after_steps no_reset direct_rl_env 10 (Suc 44)
        \<lparr>physics_time = PyFloat 0 0, render_time = PyFloat 0 0,
         num_physics_steps = 0, num_render_steps = 0\<rparr>)"
proof -
  have m: "(direct_rl_env, 10) \<in> set subtests" by (simp add: subtests_def)
  have i: "(44 :: nat) < 50" by simp
  show ?thesis using m i render_time_almost_equal [OF m i] by blast
qed

section \<open>The two expected times\<close>





end
